theory Spec2Isabelle
  imports Complex_Main "HOL-Library.Word" "HOL-Library.Log_Nat" "HOL-Library.Signed_Division"
    "HOL-Library.Sublist"
begin

section \<open>Go values: errors, panics, machine numbers\<close>

text \<open>
  The providers package of flagger is embedded function by function. A Go \<open>error\<close> is a
  value: either an ordinary error carrying its message (what \<open>fmt.Errorf\<close> builds, and any
  transport or SDK error that is not a request failure), or an \<open>awserr.RequestFailure\<close>
  carrying the HTTP status code of the failed request and its message. A function that can
  also panic (an index out of range, a nil dereference) returns an \<open>outcome\<close>.
\<close>

datatype error = PlainError string | RequestFailure int string

fun Error :: "error \<Rightarrow> string" where
  "Error (PlainError m) = m"
| "Error (RequestFailure code m) = m"

definition Errorf :: "string \<Rightarrow> error" where
  "Errorf m = PlainError m"

datatype 'a outcome = Returns 'a | Panics string

fun bind_outcome :: "'a outcome \<Rightarrow> ('a \<Rightarrow> 'b outcome) \<Rightarrow> 'b outcome" where
  "bind_outcome (Returns x) f = f x"
| "bind_outcome (Panics m) f = Panics m"

text \<open>Indexing a slice: Go panics when the index is outside \<open>0 \<le> i < len\<close>.\<close>

definition index :: "'a list \<Rightarrow> int \<Rightarrow> 'a outcome" where
  "index xs i =
     (if 0 \<le> i \<and> i < int (length xs) then Returns (xs ! nat i)
      else Panics ''runtime error: index out of range'')"

type_synonym int64 = "64 word"

text \<open>
  A finite \<open>float64\<close> is the rational number it denotes. Arithmetic is IEEE-754 binary64:
  the exact result rounded to the nearest value with a 53 bit significand, ties to even,
  with gradual underflow below \<open>2\<^sup>-\<^sup>1\<^sup>0\<^sup>2\<^sup>2\<close>. No value of this package comes near the
  overflow threshold, which is left out.
\<close>

type_synonym float64 = rat

definition pow2 :: "int \<Rightarrow> rat" where
  "pow2 e = (if 0 \<le> e then 2 ^ nat e else 1 / 2 ^ nat (- e))"

definition ilog2 :: "rat \<Rightarrow> int" where
  "ilog2 x =
     (let (p, q) = quotient_of \<bar>x\<bar>;
          k = bitlen p - bitlen q
      in if pow2 k \<le> \<bar>x\<bar> then k else k - 1)"

definition round_half_even :: "rat \<Rightarrow> int" where
  "round_half_even x =
     (let f = \<lfloor>x\<rfloor>; r = x - of_int f
      in if r < 1 / 2 then f
         else if 1 / 2 < r then f + 1
         else if even f then f else f + 1)"

definition f64_round :: "rat \<Rightarrow> float64" where
  "f64_round x =
     (if x = 0 then 0
      else let s = max (ilog2 x) (- 1022) - 52
           in of_int (round_half_even (x / pow2 s)) * pow2 s)"

definition f64_of_int :: "int \<Rightarrow> float64" where
  "f64_of_int n = f64_round (of_int n)"

definition f64_add :: "float64 \<Rightarrow> float64 \<Rightarrow> float64" where
  "f64_add x y = f64_round (x + y)"

definition f64_mul :: "float64 \<Rightarrow> float64 \<Rightarrow> float64" where
  "f64_mul x y = f64_round (x * y)"

definition f64_div :: "float64 \<Rightarrow> float64 \<Rightarrow> float64" where
  "f64_div x y = f64_round (x / y)"

text \<open>
  The conversion \<open>int64(f)\<close> of a float discards the fraction (truncation towards zero).
\<close>

definition f64_trunc :: "float64 \<Rightarrow> int" where
  "f64_trunc x = (if 0 \<le> x then \<lfloor>x\<rfloor> else \<lceil>x\<rceil>)"

definition int64_of_f64 :: "float64 \<Rightarrow> int64" where
  "int64_of_f64 x = word_of_int (f64_trunc x)"

text \<open>
  \<open>time.Duration\<close> is an \<open>int64\<close> count of nanoseconds. \<open>Duration.Seconds\<close> of Go's time
  package is \<open>sec := d / Second; nsec := d % Second; return float64(sec) + float64(nsec)/1e9\<close>,
  with Go's truncating integer division.
\<close>

type_synonym Duration = int64

definition Second :: Duration where
  "Second = 1000000000"

definition Seconds :: "Duration \<Rightarrow> float64" where
  "Seconds d =
     (let sec = sint d sdiv sint Second;
          nsec = sint d smod sint Second
      in f64_add (f64_of_int sec) (f64_div (f64_of_int nsec) 1000000000))"

text \<open>\<open>strconv.FormatInt(i, 10)\<close>: the decimal digits, with a minus sign when negative.\<close>

fun digits10 :: "nat \<Rightarrow> string" where
  "digits10 n =
     (if n < 10 then [char_of (48 + n)]
      else digits10 (n div 10) @ [char_of (48 + n mod 10)])"

declare digits10.simps [simp del]

definition FormatInt :: "int64 \<Rightarrow> string" where
  "FormatInt i =
     (if sint i < 0 then CHR ''-'' # digits10 (nat (- sint i)) else digits10 (nat (sint i)))"

text \<open>
  \<open>strings.TrimLeft(s, cutset)\<close> removes every leading character that occurs in
  \<open>cutset\<close>, and \<open>strings.TrimRight\<close> every trailing one: the second argument is a set
  of characters, not a prefix or a suffix.
\<close>

definition TrimLeft :: "string \<Rightarrow> string \<Rightarrow> string" where
  "TrimLeft s cutset = dropWhile (\<lambda>c. c \<in> set cutset) s"

definition TrimRight :: "string \<Rightarrow> string \<Rightarrow> string" where
  "TrimRight s cutset = rev (dropWhile (\<lambda>c. c \<in> set cutset) (rev s))"

text \<open>What the spec's words ask for instead: one fixed prefix, one fixed suffix.\<close>

definition TrimPrefix :: "string \<Rightarrow> string \<Rightarrow> string" where
  "TrimPrefix s p = (if prefix p s then drop (length p) s else s)"

definition TrimSuffix :: "string \<Rightarrow> string \<Rightarrow> string" where
  "TrimSuffix s x = (if suffix x s then take (length s - length x) s else s)"

section \<open>The provider configuration\<close>

text \<open>
  \<open>flaggerv1.MetricTemplateProvider\<close>: the fields this package reads. The credentials are
  a Go map from secret names to byte strings.
\<close>

record MetricTemplateProvider =
  Type :: string
  Address :: string

type_synonym credentials = "string \<rightharpoonup> string"

section \<open>The Datadog client (datadog.go)\<close>

definition datadogDefaultHost :: string where
  "datadogDefaultHost = ''https://api.datadoghq.com''"

definition datadogMetricsQueryPath :: string where
  "datadogMetricsQueryPath = ''/api/v1/query''"

definition datadogAPIKeyValidationPath :: string where
  "datadogAPIKeyValidationPath = ''/api/v1/validate''"

definition datadogAPIKeySecretKey :: string where
  "datadogAPIKeySecretKey = ''datadog_api_key''"

definition datadogAPIKeyHeaderKey :: string where
  "datadogAPIKeyHeaderKey = ''DD-API-KEY''"

definition datadogApplicationKeySecretKey :: string where
  "datadogApplicationKeySecretKey = ''datadog_application_key''"

definition datadogApplicationKeyHeaderKey :: string where
  "datadogApplicationKeyHeaderKey = ''DD-APPLICATION-KEY''"

definition datadogFromDeltaMultiplierOnMetricInterval :: float64 where
  "datadogFromDeltaMultiplierOnMetricInterval = 10"

record datadogProvider =
  metricsQueryEndpoint :: string
  apiKeyValidationEndpoint :: string
  timeout :: Duration
  apiKey :: string
  applicationKey :: string
  fromDelta :: int64

record datadogSeries =
  Pointlist :: "float64 list list"

record datadogResponse =
  Series :: "datadogSeries list"

text \<open>
  \<open>newDatadogProvider\<close>. \<open>time.ParseDuration\<close> is the standard library's and is taken as
  the parameter \<open>ParseDuration\<close>: the error, or the duration parsed. The result is Go's
  pair of a pointer (\<open>None\<close> for nil) and an error (\<open>None\<close> for nil).
\<close>

definition newDatadogProvider ::
  "(string \<Rightarrow> error + Duration) \<Rightarrow> string \<Rightarrow> MetricTemplateProvider \<Rightarrow> credentials
     \<Rightarrow> datadogProvider option \<times> error option" where
  "newDatadogProvider ParseDuration metricInterval provider creds =
     (let address = (if Address provider = [] then datadogDefaultHost else Address provider);
          dd = \<lparr>metricsQueryEndpoint = address @ datadogMetricsQueryPath,
                apiKeyValidationEndpoint = address @ datadogAPIKeyValidationPath,
                timeout = 5 * Second,
                apiKey = [],
                applicationKey = [],
                fromDelta = 0\<rparr>
      in case creds datadogAPIKeySecretKey of
           None \<Rightarrow>
             (None, Some (Errorf ''datadog credentials does not contain datadog_api_key''))
         | Some b \<Rightarrow>
             (let dd = dd\<lparr>apiKey := b\<rparr>
              in case creds datadogApplicationKeySecretKey of
                   None \<Rightarrow>
                     (None,
                      Some (Errorf
                        ''datadog credentials does not contain datadog_application_key''))
                 | Some b \<Rightarrow>
                     (let dd = dd\<lparr>applicationKey := b\<rparr>
                      in case ParseDuration metricInterval of
                           Inl err \<Rightarrow>
                             (None,
                              Some (Errorf (''error parsing metric interval: '' @ Error err)))
                         | Inr md \<Rightarrow>
                             (Some (dd\<lparr>fromDelta :=
                                int64_of_f64
                                  (f64_mul datadogFromDeltaMultiplierOnMetricInterval
                                     (Seconds md))\<rparr>),
                              None))))"

text \<open>
  The HTTP side of a call. \<open>http.NewRequest\<close> fails or builds the request;
  \<open>http.DefaultClient.Do\<close> fails or answers with a status code and a body whose reading
  (\<open>ioutil.ReadAll\<close>) fails or gives the bytes; \<open>time.Now().Unix()\<close> is the clock.
\<close>

record http_request =
  Method :: string
  URL :: string
  Header :: "(string \<times> string) list"
  Query :: "(string \<times> string) list"
  Timeout :: Duration

record http_response =
  StatusCode :: int
  Body :: "error + string"

record http_env =
  NewRequest :: "string \<Rightarrow> string \<Rightarrow> error option"
  Do :: "http_request \<Rightarrow> error + http_response"
  Now :: int64

definition StatusOK :: int where
  "StatusOK = 200"

definition StatusBadRequest :: int where
  "StatusBadRequest = 400"

text \<open>
  \<open>datadogProvider.RunQuery\<close>. \<open>json.Unmarshal\<close> into a \<open>datadogResponse\<close> is the standard
  library's and is the parameter \<open>Unmarshal\<close>. The two index expressions
  \<open>s.Pointlist[len(s.Pointlist)-1]\<close> and \<open>vs[1]\<close> are unguarded but for \<open>len(vs) < 1\<close>.
\<close>

definition datadog_RunQuery ::
  "http_env \<Rightarrow> (string \<Rightarrow> error + datadogResponse) \<Rightarrow> datadogProvider \<Rightarrow> string
     \<Rightarrow> (float64 \<times> error option) outcome" where
  "datadog_RunQuery env Unmarshal p query =
     (case NewRequest env ''GET'' (metricsQueryEndpoint p) of
        Some err \<Rightarrow> Returns (0, Some (Errorf (''error http.NewRequest: '' @ Error err)))
      | None \<Rightarrow>
          (let now = Now env;
               req = \<lparr>Method = ''GET'',
                      URL = metricsQueryEndpoint p,
                      Header = [(datadogAPIKeyHeaderKey, apiKey p),
                                (datadogApplicationKeyHeaderKey, applicationKey p)],
                      Query = [(''query'', query),
                               (''from'', FormatInt (now - fromDelta p)),
                               (''to'', FormatInt now)],
                      Timeout = timeout p\<rparr>
           in case Do env req of
                Inl err \<Rightarrow> Returns (0, Some err)
              | Inr r \<Rightarrow>
                  (case Body r of
                     Inl err \<Rightarrow>
                       Returns (0, Some (Errorf (''error reading body: '' @ Error err)))
                   | Inr b \<Rightarrow>
                       if StatusCode r \<noteq> StatusOK
                       then Returns (0, Some (Errorf (''error response: '' @ b)))
                       else
                         (case Unmarshal b of
                            Inl err \<Rightarrow>
                              Returns (0, Some (Errorf
                                (''error unmarshaling result: '' @ Error err @ '', '' @
                                   [CHR 0x27] @ b @ [CHR 0x27])))
                          | Inr res \<Rightarrow>
                              if length (Series res) < 1
                              then Returns (0, Some (Errorf
                                     (''no values found in response: '' @ b)))
                              else
                                bind_outcome (index (Series res) 0) (\<lambda>s.
                                bind_outcome
                                  (index (Pointlist s) (int (length (Pointlist s)) - 1))
                                  (\<lambda>vs.
                                if length vs < 1
                                then Returns (0, Some (Errorf
                                       (''no values found in response: '' @ b)))
                                else bind_outcome (index vs 1) (\<lambda>v.
                                       Returns (v, None))))))))"

text \<open>\<open>datadogProvider.IsOnline\<close>.\<close>

definition datadog_IsOnline :: "http_env \<Rightarrow> datadogProvider \<Rightarrow> bool \<times> error option" where
  "datadog_IsOnline env p =
     (case NewRequest env ''GET'' (apiKeyValidationEndpoint p) of
        Some err \<Rightarrow> (False, Some (Errorf (''error http.NewRequest: '' @ Error err)))
      | None \<Rightarrow>
          (let req = \<lparr>Method = ''GET'',
                      URL = apiKeyValidationEndpoint p,
                      Header = [(datadogAPIKeyHeaderKey, apiKey p),
                                (datadogApplicationKeyHeaderKey, applicationKey p)],
                      Query = [],
                      Timeout = timeout p\<rparr>
           in case Do env req of
                Inl err \<Rightarrow> (False, Some err)
              | Inr r \<Rightarrow>
                  (case Body r of
                     Inl err \<Rightarrow> (False, Some (Errorf (''error reading body: '' @ Error err)))
                   | Inr b \<Rightarrow>
                       if StatusCode r \<noteq> StatusOK
                       then (False, Some (Errorf (''error response: '' @ b)))
                       else (True, None))))"

section \<open>The CloudWatch client\<close>

definition cloudWatchMaxRetries :: int where
  "cloudWatchMaxRetries = 3"

text \<open>
  The SDK's types, as far as the client reads and writes them: the configuration given to
  \<open>session.NewSession\<close>, the input and output of \<open>GetMetricData\<close>. Pointers are options,
  \<open>'q\<close> is the SDK's \<open>MetricDataQuery\<close>.
\<close>

record aws_Config =
  Region :: string
  MaxRetries :: int
  Endpoint :: string

type_synonym Time = int

definition zeroTime :: Time where
  "zeroTime = 0"

record 'q GetMetricDataInput =
  EndTime :: "Time option"
  MaxDatapoints :: "int64 option"
  StartTime :: "Time option"
  MetricDataQueries :: "'q list"

record MetricDataResult =
  Values :: "float64 option list"

record GetMetricDataOutput =
  MetricDataResults :: "MetricDataResult option list"

type_synonym 'q cloudWatchClient =
  "'q GetMetricDataInput \<Rightarrow> GetMetricDataOutput option \<times> error option"

record 'q cloudWatchProvider =
  client :: "'q cloudWatchClient"

text \<open>The region of lines 79 and 80 of the constructor.\<close>

definition cloudWatchRegion :: "string \<Rightarrow> string" where
  "cloudWatchRegion address =
     (let region = TrimLeft address ''monitoring.'';
          region = TrimRight region ''.amazonaws.com''
      in region)"

text \<open>
  \<open>newCloudWatchProvider\<close>. \<open>session.NewSession\<close> and \<open>cloudwatch.New\<close> are the SDK's and
  are parameters. The function returns the address of a fresh \<open>cloudWatchProvider\<close> in
  every case, beside whatever error the session constructor gave.
\<close>

definition newCloudWatchProvider ::
  "(aws_Config \<Rightarrow> 'sess \<times> error option) \<Rightarrow> ('sess \<Rightarrow> 'q cloudWatchClient)
     \<Rightarrow> MetricTemplateProvider \<Rightarrow> 'q cloudWatchProvider option \<times> error option" where
  "newCloudWatchProvider NewSession cloudwatch_New provider =
     (let region = cloudWatchRegion (Address provider);
          (sess, err) = NewSession \<lparr>Region = region,
                                    MaxRetries = cloudWatchMaxRetries,
                                    Endpoint = Address provider\<rparr>
      in (Some \<lparr>client = cloudwatch_New sess\<rparr>, err))"

text \<open>\<open>aws.Float64Value\<close>: the value behind the pointer, 0 for nil.\<close>

definition Float64Value :: "float64 option \<Rightarrow> float64" where
  "Float64Value v = (case v of None \<Rightarrow> 0 | Some x \<Rightarrow> x)"

text \<open>
  \<open>cloudWatchProvider.RunQuery\<close>. The result comes with the list of the inputs sent to the
  backend, in order, so that a call that was never made can be told from one that was.
  \<open>json.Unmarshal\<close> into the query list is the parameter \<open>Unmarshal\<close>; \<open>String\<close> renders
  the output for the error message. Dereferencing a nil output or a nil first result
  panics.
\<close>

definition cloudWatch_RunQuery ::
  "(string \<Rightarrow> error + 'q list) \<Rightarrow> (GetMetricDataOutput \<Rightarrow> string) \<Rightarrow> 'q cloudWatchProvider
     \<Rightarrow> string \<Rightarrow> (float64 \<times> error option) outcome \<times> 'q GetMetricDataInput list" where
  "cloudWatch_RunQuery Unmarshal String p query =
     (case Unmarshal query of
        Inl err \<Rightarrow>
          (Returns (0, Some (Errorf (''error unmarshaling query: '' @ Error err))), [])
      | Inr cq \<Rightarrow>
          (let input = \<lparr>EndTime = None,
                        MaxDatapoints = Some 1,
                        StartTime = None,
                        MetricDataQueries = cq\<rparr>;
               (res, err) = client p input
           in ((case err of
                 Some e \<Rightarrow>
                   Returns (0, Some (Errorf (''error requesting cloudwatch: '' @ Error e)))
               | None \<Rightarrow>
                   (case res of
                      None \<Rightarrow> Panics ''runtime error: invalid memory address or nil pointer dereference''
                    | Some res \<Rightarrow>
                        (let mr = MetricDataResults res
                         in if length mr < 1
                            then Returns (0, Some (Errorf
                                   (''no values found in response: '' @ String res)))
                            else
                              bind_outcome (index (MetricDataResults res) 0) (\<lambda>r0.
                                case r0 of
                                  None \<Rightarrow> Panics ''runtime error: invalid memory address or nil pointer dereference''
                                | Some r0 \<Rightarrow>
                                    (let vs = Values r0
                                     in if length vs < 1
                                        then Returns (0, Some (Errorf
                                               (''no values found in response: '' @
                                                  String res)))
                                        else bind_outcome (index vs 0) (\<lambda>v.
                                               Returns (Float64Value v, None))))))),
               [input])))"

text \<open>\<open>cloudWatchProvider.IsOnline\<close>, with the inputs sent to the backend.\<close>

definition cloudWatch_IsOnline ::
  "'q cloudWatchProvider \<Rightarrow> (bool \<times> error option) \<times> 'q GetMetricDataInput list" where
  "cloudWatch_IsOnline p =
     (let input = \<lparr>EndTime = Some zeroTime,
                   MaxDatapoints = None,
                   StartTime = Some zeroTime,
                   MetricDataQueries = []\<rparr>;
          (_, err) = client p input
      in ((case err of
            None \<Rightarrow> (True, None)
          | Some e \<Rightarrow>
              (case e of
                 PlainError m \<Rightarrow> (False, Some (Errorf (''unexpected error: '' @ Error e)))
               | RequestFailure code m \<Rightarrow>
                   if code \<noteq> StatusBadRequest
                   then (False, Some (Errorf (''unexpected status code: '' @ Error e)))
                   else (True, None))),
          [input]))"

section \<open>The factory\<close>

text \<open>
  A Go interface value is a dynamic type together with a pointer that may be nil. The
  Prometheus client is not part of these files: its constructor is a parameter and its
  provider type is \<open>'p\<close>.
\<close>

datatype ('p, 'q) Interface =
    IfacePrometheus "'p option"
  | IfaceDatadog "datadogProvider option"
  | IfaceCloudWatch "'q cloudWatchProvider option"

datatype kind = Prometheus | Datadog | CloudWatch

fun kind_of :: "('p, 'q) Interface \<Rightarrow> kind" where
  "kind_of (IfacePrometheus _) = Prometheus"
| "kind_of (IfaceDatadog _) = Datadog"
| "kind_of (IfaceCloudWatch _) = CloudWatch"

text \<open>The first \<open>Factory.Provider\<close> of the sources (a \<open>switch\<close> on conditions, two types).\<close>

definition Provider_v1 ::
  "(MetricTemplateProvider \<Rightarrow> credentials \<Rightarrow> 'p option \<times> error option)
     \<Rightarrow> (string \<Rightarrow> MetricTemplateProvider \<Rightarrow> credentials \<Rightarrow> datadogProvider option \<times> error option)
     \<Rightarrow> string \<Rightarrow> MetricTemplateProvider \<Rightarrow> credentials
     \<Rightarrow> ('p, 'q) Interface \<times> error option" where
  "Provider_v1 NewPrometheusProvider NewDatadogProvider metricInterval provider creds =
     (if Type provider = ''prometheus''
      then (case NewPrometheusProvider provider creds of (c, err) \<Rightarrow> (IfacePrometheus c, err))
      else if Type provider = ''datadog''
      then (case NewDatadogProvider metricInterval provider creds of
              (c, err) \<Rightarrow> (IfaceDatadog c, err))
      else (case NewPrometheusProvider provider creds of (c, err) \<Rightarrow> (IfacePrometheus c, err)))"

text \<open>The second \<open>Factory.Provider\<close> (a \<open>switch\<close> on the type string, three types).\<close>

definition Provider ::
  "(MetricTemplateProvider \<Rightarrow> credentials \<Rightarrow> 'p option \<times> error option)
     \<Rightarrow> (string \<Rightarrow> error + Duration)
     \<Rightarrow> (aws_Config \<Rightarrow> 'sess \<times> error option) \<Rightarrow> ('sess \<Rightarrow> 'q cloudWatchClient)
     \<Rightarrow> string \<Rightarrow> MetricTemplateProvider \<Rightarrow> credentials
     \<Rightarrow> ('p, 'q) Interface \<times> error option" where
  "Provider newPrometheusProvider ParseDuration NewSession cloudwatch_New
       metricInterval provider creds =
     (if Type provider = ''prometheus''
      then (case newPrometheusProvider provider creds of (c, err) \<Rightarrow> (IfacePrometheus c, err))
      else if Type provider = ''datadog''
      then (case newDatadogProvider ParseDuration metricInterval provider creds of
              (c, err) \<Rightarrow> (IfaceDatadog c, err))
      else if Type provider = ''cloudwatch''
      then (case newCloudWatchProvider NewSession cloudwatch_New provider of
              (c, err) \<Rightarrow> (IfaceCloudWatch c, err))
      else (case newPrometheusProvider provider creds of (c, err) \<Rightarrow> (IfacePrometheus c, err)))"

section \<open>Datadog construction\<close>

lemma sublist_api_key:
  "sublist ''datadog_api_key'' ''datadog credentials does not contain datadog_api_key''"
  by (rule suffix_imp_sublist) (simp add: suffix_def)

lemma sublist_application_key:
  "sublist ''datadog_application_key''
     ''datadog credentials does not contain datadog_application_key''"
  by (rule suffix_imp_sublist) (simp add: suffix_def)

lemmas datadog_keys = datadogAPIKeySecretKey_def datadogApplicationKeySecretKey_def

lemma newDatadogProvider_no_api_key:
  "creds ''datadog_api_key'' = None \<Longrightarrow>
     newDatadogProvider ParseDuration metricInterval provider creds =
       (None, Some (PlainError ''datadog credentials does not contain datadog_api_key''))"
  by (simp add: newDatadogProvider_def datadog_keys Let_def Errorf_def)

lemma newDatadogProvider_no_application_key:
  "creds ''datadog_api_key'' = Some a \<Longrightarrow> creds ''datadog_application_key'' = None \<Longrightarrow>
     newDatadogProvider ParseDuration metricInterval provider creds =
       (None, Some (PlainError ''datadog credentials does not contain datadog_application_key''))"
  by (simp add: newDatadogProvider_def datadog_keys Let_def Errorf_def)

lemma newDatadogProvider_parse_error:
  "creds ''datadog_api_key'' = Some a \<Longrightarrow> creds ''datadog_application_key'' = Some b \<Longrightarrow>
   ParseDuration metricInterval = Inl err \<Longrightarrow>
     newDatadogProvider ParseDuration metricInterval provider creds =
       (None, Some (PlainError (''error parsing metric interval: '' @ Error err)))"
  by (simp add: newDatadogProvider_def datadog_keys Let_def Errorf_def)

lemma newDatadogProvider_ok:
  "creds ''datadog_api_key'' = Some a \<Longrightarrow> creds ''datadog_application_key'' = Some b \<Longrightarrow>
   ParseDuration metricInterval = Inr md \<Longrightarrow>
     newDatadogProvider ParseDuration metricInterval provider creds =
       (Some \<lparr>metricsQueryEndpoint =
                 (if Address provider = [] then datadogDefaultHost else Address provider) @
                   datadogMetricsQueryPath,
              apiKeyValidationEndpoint =
                 (if Address provider = [] then datadogDefaultHost else Address provider) @
                   datadogAPIKeyValidationPath,
              timeout = 5 * Second,
              apiKey = a,
              applicationKey = b,
              fromDelta = int64_of_f64 (f64_mul 10 (Seconds md))\<rparr>, None)"
  by (simp add: newDatadogProvider_def datadog_keys Let_def
      datadogFromDeltaMultiplierOnMetricInterval_def)

text \<open>
  C7. With both \<open>datadog_api_key\<close> and \<open>datadog_application_key\<close> in the credentials and
  an interval that parses, \<open>newDatadogProvider\<close> succeeds (a client holding the two keys,
  no error). Without \<open>datadog_api_key\<close> it returns no client and an error whose text
  names \<open>datadog_api_key\<close>; with \<open>datadog_api_key\<close> but without
  \<open>datadog_application_key\<close> it returns no client and an error whose text names
  \<open>datadog_application_key\<close>.
\<close>

theorem newDatadogProvider_credentials:
  "(creds ''datadog_api_key'' = Some a \<and> creds ''datadog_application_key'' = Some b \<and>
      ParseDuration metricInterval = Inr md \<longrightarrow>
      (\<exists>dd. newDatadogProvider ParseDuration metricInterval provider creds = (Some dd, None) \<and>
            apiKey dd = a \<and> applicationKey dd = b))
   \<and> (creds ''datadog_api_key'' = None \<longrightarrow>
      (\<exists>e. newDatadogProvider ParseDuration metricInterval provider creds = (None, Some e) \<and>
           sublist ''datadog_api_key'' (Error e)))
   \<and> (creds ''datadog_api_key'' = Some a \<and> creds ''datadog_application_key'' = None \<longrightarrow>
      (\<exists>e. newDatadogProvider ParseDuration metricInterval provider creds = (None, Some e) \<and>
           sublist ''datadog_application_key'' (Error e)))"
proof (intro conjI impI)
  assume "creds ''datadog_api_key'' = Some a \<and> creds ''datadog_application_key'' = Some b \<and>
      ParseDuration metricInterval = Inr md"
  then show "\<exists>dd. newDatadogProvider ParseDuration metricInterval provider creds = (Some dd, None) \<and>
            apiKey dd = a \<and> applicationKey dd = b"
    by (simp add: newDatadogProvider_ok)
next
  assume "creds ''datadog_api_key'' = None"
  then show "\<exists>e. newDatadogProvider ParseDuration metricInterval provider creds = (None, Some e) \<and>
           sublist ''datadog_api_key'' (Error e)"
    by (simp add: newDatadogProvider_no_api_key sublist_api_key)
next
  assume "creds ''datadog_api_key'' = Some a \<and> creds ''datadog_application_key'' = None"
  then show "\<exists>e. newDatadogProvider ParseDuration metricInterval provider creds = (None, Some e) \<and>
           sublist ''datadog_application_key'' (Error e)"
    by (simp add: newDatadogProvider_no_application_key sublist_application_key)
qed

theorem newDatadogProvider_credentials_witness:
  "(\<exists>dd. newDatadogProvider (\<lambda>_. Inr (60 * Second)) ''1m'' \<lparr>Type = ''datadog'', Address = []\<rparr>
            [''datadog_api_key'' \<mapsto> ''k'', ''datadog_application_key'' \<mapsto> ''a'']
          = (Some dd, None) \<and> apiKey dd = ''k'' \<and> applicationKey dd = ''a'')
   \<and> (\<exists>e. newDatadogProvider (\<lambda>_. Inr (60 * Second)) ''1m'' \<lparr>Type = ''datadog'', Address = []\<rparr>
            Map.empty = (None, Some e) \<and> sublist ''datadog_api_key'' (Error e))
   \<and> (\<exists>e. newDatadogProvider (\<lambda>_. Inr (60 * Second)) ''1m'' \<lparr>Type = ''datadog'', Address = []\<rparr>
            [''datadog_api_key'' \<mapsto> ''k''] = (None, Some e) \<and>
            sublist ''datadog_application_key'' (Error e))"
proof -
  let ?P = "\<lambda>_::string. (Inr (60 * Second) :: error + Duration)"
  let ?p = "\<lparr>Type = ''datadog'', Address = []\<rparr>"
  let ?c2 = "[''datadog_api_key'' \<mapsto> ''k'', ''datadog_application_key'' \<mapsto> ''a'']"
  let ?c1 = "[''datadog_api_key'' \<mapsto> ''k'']"
  have 1: "?c2 ''datadog_api_key'' = Some ''k'' \<and> ?c2 ''datadog_application_key'' = Some ''a'' \<and>
      ?P ''1m'' = Inr (60 * Second)" by simp
  have 2: "(Map.empty :: credentials) ''datadog_api_key'' = None" by simp
  have 3: "?c1 ''datadog_api_key'' = Some ''k'' \<and> ?c1 ''datadog_application_key'' = None"
    by simp
  from newDatadogProvider_credentials [of ?c2 "''k''" "''a''" ?P "''1m''" "60 * Second" ?p] 1
  have a: "\<exists>dd. newDatadogProvider ?P ''1m'' ?p ?c2 = (Some dd, None) \<and>
             apiKey dd = ''k'' \<and> applicationKey dd = ''a''"
    by blast
  from newDatadogProvider_credentials [of Map.empty _ _ ?P "''1m''" _ ?p] 2
  have b: "\<exists>e. newDatadogProvider ?P ''1m'' ?p Map.empty = (None, Some e) \<and>
             sublist ''datadog_api_key'' (Error e)"
    by blast
  from newDatadogProvider_credentials [of ?c1 "''k''" _ ?P "''1m''" _ ?p] 3
  have c: "\<exists>e. newDatadogProvider ?P ''1m'' ?p ?c1 = (None, Some e) \<and>
             sublist ''datadog_application_key'' (Error e)"
    by blast
  from a b c show ?thesis by blast
qed

section \<open>The lookback window\<close>

text \<open>
  Facts about the float64 arithmetic: an integer below \<open>2\<^sup>5\<^sup>3\<close> in magnitude is
  represented exactly, so that \<open>Seconds\<close> and the product with 10 are exact on whole
  seconds.
\<close>

lemma quotient_of_abs_of_int: "quotient_of \<bar>of_int z :: rat\<bar> = (\<bar>z\<bar>, 1)"
  by (simp flip: of_int_abs)

lemma bitlen_one: "bitlen 1 = 1" by (simp add: bitlen_alt_def)

lemma bitlen_ge_one: "0 < z \<Longrightarrow> 1 \<le> bitlen z" by (auto simp: bitlen_alt_def)

lemma pow2_le_of_int: "0 < z \<Longrightarrow> pow2 (bitlen z - 1) \<le> of_int z"
proof -
  assume pos: "0 < z"
  have "(2::int) ^ nat (bitlen z - 1) \<le> z" using bitlen_bounds [OF pos] by simp
  then have "(of_int (2 ^ nat (bitlen z - 1)) :: rat) \<le> of_int z"
    by (simp only: of_int_le_iff)
  then show ?thesis using bitlen_ge_one [OF pos] by (simp add: pow2_def)
qed


lemma ilog2_of_int:
  assumes "z \<noteq> 0"
  shows "ilog2 (of_int z) = bitlen \<bar>z\<bar> - 1"
proof -
  have pos: "0 < \<bar>z\<bar>" using assms by simp
  have le: "pow2 (bitlen \<bar>z\<bar> - 1) \<le> \<bar>of_int z\<bar>"
    using pow2_le_of_int [OF pos] by simp
  have "ilog2 (of_int z) =
      (if pow2 (bitlen \<bar>z\<bar> - bitlen 1) \<le> \<bar>of_int z\<bar>
       then bitlen \<bar>z\<bar> - bitlen 1 else bitlen \<bar>z\<bar> - bitlen 1 - 1)"
    unfolding ilog2_def quotient_of_abs_of_int by (simp only: Let_def prod.case)
  also have "\<dots> = bitlen \<bar>z\<bar> - 1"
    unfolding bitlen_one using le by (simp only: if_True)
  finally show ?thesis .
qed

lemma round_half_even_of_int: "round_half_even (of_int z) = z"
  by (simp add: round_half_even_def)

lemma f64_trunc_of_int: "f64_trunc (of_int z) = z"
  by (simp add: f64_trunc_def)

lemma pow2_neg: "0 \<le> k \<Longrightarrow> pow2 (- k) = 1 / 2 ^ nat k"
  by (cases "k = 0") (simp_all add: pow2_def)

lemma f64_round_of_int:
  assumes "\<bar>z\<bar> < 2 ^ 53"
  shows "f64_round (of_int z) = of_int z"
proof (cases "z = 0")
  case True
  then show ?thesis by (simp add: f64_round_def)
next
  case False
  then have pos: "0 < \<bar>z\<bar>" by simp
  define e where "e = bitlen \<bar>z\<bar> - 1"
  define k where "k = 52 - e"
  have ge: "0 \<le> e" using bitlen_ge_one [OF pos] by (simp add: e_def)
  have "bitlen \<bar>z\<bar> \<le> 53" using assms by (simp add: bitlen_le_iff_power)
  then have k0: "0 \<le> k" by (simp add: e_def k_def)
  have il: "ilog2 (of_int z) = e" using False by (simp add: ilog2_of_int e_def)
  have s: "max e (- 1022) - 52 = - k" using ge by (simp add: k_def)
  have p: "pow2 (- k) = 1 / 2 ^ nat k" using k0 by (rule pow2_neg)
  have "(of_int z :: rat) / pow2 (- k) = of_int (z * 2 ^ nat k)"
    by (simp add: p)
  then have r: "round_half_even (of_int z / pow2 (- k)) = z * 2 ^ nat k"
    by (simp only: round_half_even_of_int)
  have nz: "(of_int z :: rat) \<noteq> 0" using False by simp
  have "f64_round (of_int z) =
      of_int (round_half_even (of_int z / pow2 (max (ilog2 (of_int z)) (- 1022) - 52))) *
        pow2 (max (ilog2 (of_int z)) (- 1022) - 52)"
    unfolding f64_round_def using nz by (simp only: if_False Let_def)
  also have "\<dots> = of_int (round_half_even (of_int z / pow2 (- k))) * pow2 (- k)"
    by (simp only: il s)
  also have "\<dots> = of_int (z * 2 ^ nat k) * pow2 (- k)"
    by (simp only: r)
  also have "\<dots> = of_int z" by (simp add: p)
  finally show ?thesis .
qed


lemma sdiv_mult_self: "0 < c \<Longrightarrow> (n * c) sdiv c = (n::int)"
proof -
  assume c: "0 < c"
  have "(n * c) sdiv c = sgn (n * c) * sgn c * (\<bar>n * c\<bar> div \<bar>c\<bar>)"
    by (simp only: signed_divide_int_def)
  also have "\<dots> = sgn n * \<bar>n\<bar>" using c by (simp add: sgn_mult abs_mult)
  also have "\<dots> = n" by (simp add: mult_sgn_abs)
  finally show ?thesis .
qed

lemma smod_mult_self: "0 < c \<Longrightarrow> (n * c) smod c = (0::int)"
  by (simp add: signed_modulo_int_def abs_mult)

lemma sint_Second: "sint Second = 1000000000"
  by (simp add: Second_def)

lemma Seconds_whole:
  assumes "sint d = n * 1000000000" and "\<bar>n\<bar> < 2 ^ 53"
  shows "Seconds d = of_int n"
proof -
  have sec: "sint d sdiv sint Second = n"
    unfolding sint_Second assms(1) by (rule sdiv_mult_self) simp
  have nsec: "sint d smod sint Second = 0"
    unfolding sint_Second assms(1) by (rule smod_mult_self) simp
  have z: "f64_div (f64_of_int 0) 1000000000 = 0"
    by (simp add: f64_div_def f64_of_int_def f64_round_def)
  have "Seconds d = f64_add (f64_of_int n) 0"
    unfolding Seconds_def sec nsec by (simp only: Let_def z)
  also have "\<dots> = of_int n"
    using assms(2) by (simp add: f64_add_def f64_of_int_def f64_round_of_int)
  finally show ?thesis .
qed

lemma whole_seconds_bound:
  assumes "sint (d :: 64 word) = n * 1000000000"
  shows "\<bar>n\<bar> < 10000000000"
proof -
  have "- (2 ^ 63) \<le> sint d" "sint d < 2 ^ 63"
    using sint_ge [of d] sint_lt [of d] by simp_all
  then show ?thesis unfolding assms by simp
qed

lemma sint_word_of_int_64:
  assumes "- (2 ^ 63) \<le> k" and "k < 2 ^ 63"
  shows "sint (word_of_int k :: 64 word) = k"
proof -
  have "sint (word_of_int k :: 64 word) = signed_take_bit 63 k"
    by (simp only: sint_sbintrunc') simp
  also have "\<dots> = k" using assms by (rule signed_take_bit_int_eq_self)
  finally show ?thesis .
qed

lemma fromDelta_whole:
  assumes "sint (d :: 64 word) = n * 1000000000"
  shows "sint (int64_of_f64 (f64_mul 10 (Seconds d))) = 10 * n"
proof -
  have b: "\<bar>n\<bar> < 10000000000" using assms by (rule whole_seconds_bound)
  then have b53: "\<bar>n\<bar> < 2 ^ 53" by simp
  have b10: "\<bar>10 * n\<bar> < 2 ^ 53" using b by simp
  have "f64_mul 10 (Seconds d) = f64_round (of_int (10 * n))"
    by (simp add: f64_mul_def Seconds_whole [OF assms b53])
  also have "\<dots> = of_int (10 * n)" using b10 by (rule f64_round_of_int)
  finally have "int64_of_f64 (f64_mul 10 (Seconds d)) = word_of_int (10 * n)"
    by (simp only: int64_of_f64_def f64_trunc_of_int)
  moreover have "sint (word_of_int (10 * n) :: 64 word) = 10 * n"
    using b by (intro sint_word_of_int_64) simp_all
  ultimately show ?thesis by simp
qed

lemma fromDelta_250ms: "sint (int64_of_f64 (f64_mul 10 (Seconds 250000000))) = 2"
  by code_simp

text \<open>
  C6. \<open>fromDelta\<close> is claimed to be exactly 10 times the duration in seconds, also when
  that is not a whole number. \<open>fromDelta\<close> is an \<open>int64\<close>: for 250 ms the product is 2.5
  and the conversion stores 2. And an interval that does not parse is reported only when
  both credentials are there: the credentials are checked first.
\<close>

theorem newDatadogProvider_fromDelta_truncates:
  "\<exists>dd. newDatadogProvider (\<lambda>_. Inr 250000000) ''250ms'' \<lparr>Type = ''datadog'', Address = []\<rparr>
           [''datadog_api_key'' \<mapsto> ''k'', ''datadog_application_key'' \<mapsto> ''a'']
         = (Some dd, None)
       \<and> sint (fromDelta dd) = 2
       \<and> (of_int (sint (fromDelta dd)) :: rat) \<noteq> 10 * (250000000 / 1000000000)
       \<and> newDatadogProvider (\<lambda>_. Inl (PlainError ''time: invalid duration'')) ''abc''
           \<lparr>Type = ''datadog'', Address = []\<rparr> Map.empty
         = (None, Some (PlainError ''datadog credentials does not contain datadog_api_key''))"
proof -
  let ?dd = "\<lparr>metricsQueryEndpoint = datadogDefaultHost @ datadogMetricsQueryPath,
              apiKeyValidationEndpoint = datadogDefaultHost @ datadogAPIKeyValidationPath,
              timeout = 5 * Second,
              apiKey = ''k'',
              applicationKey = ''a'',
              fromDelta = int64_of_f64 (f64_mul 10 (Seconds 250000000))\<rparr>"
  have 1: "newDatadogProvider (\<lambda>_. Inr 250000000) ''250ms'' \<lparr>Type = ''datadog'', Address = []\<rparr>
           [''datadog_api_key'' \<mapsto> ''k'', ''datadog_application_key'' \<mapsto> ''a'']
         = (Some ?dd, None)"
    by (simp add: newDatadogProvider_ok)
  have 2: "sint (fromDelta ?dd) = 2"
    by (simp only: datadogProvider.select_convs fromDelta_250ms)
  have 3: "(of_int (sint (fromDelta ?dd)) :: rat) \<noteq> 10 * (250000000 / 1000000000)"
    unfolding 2 by simp
  have 4: "newDatadogProvider (\<lambda>_. Inl (PlainError ''time: invalid duration'')) ''abc''
           \<lparr>Type = ''datadog'', Address = []\<rparr> Map.empty
         = (None, Some (PlainError ''datadog credentials does not contain datadog_api_key''))"
    by (simp add: newDatadogProvider_no_api_key)
  from 1 2 3 4 show ?thesis by blast
qed

lemma sublist_parse_error: "sublist m (''error parsing metric interval: '' @ m)"
  by (rule suffix_imp_sublist) (rule suffixI, rule refl)

text \<open>
  C6, as amended. With both credentials present: when the interval fails to parse,
  construction returns no client and an error whose text contains the parse error's;
  when it parses, construction succeeds and \<open>fromDelta\<close> is the float64 product of 10 and
  the duration's seconds, converted to \<open>int64\<close> by discarding the fraction. For a
  duration of a whole number \<open>n\<close> of seconds that is exactly \<open>10 * n\<close>.
\<close>

theorem newDatadogProvider_interval:
  "creds ''datadog_api_key'' = Some a \<and> creds ''datadog_application_key'' = Some b \<longrightarrow>
     (ParseDuration metricInterval = Inl err \<longrightarrow>
        (\<exists>e. newDatadogProvider ParseDuration metricInterval provider creds = (None, Some e) \<and>
             sublist (Error err) (Error e)))
     \<and> (ParseDuration metricInterval = Inr md \<longrightarrow>
        (\<exists>dd. newDatadogProvider ParseDuration metricInterval provider creds = (Some dd, None) \<and>
              fromDelta dd = int64_of_f64 (f64_mul 10 (Seconds md)) \<and>
              (sint md = n * 1000000000 \<longrightarrow> sint (fromDelta dd) = 10 * n)))"
proof (intro impI conjI)
  assume c: "creds ''datadog_api_key'' = Some a \<and> creds ''datadog_application_key'' = Some b"
    and p: "ParseDuration metricInterval = Inl err"
  from c p have "newDatadogProvider ParseDuration metricInterval provider creds =
      (None, Some (PlainError (''error parsing metric interval: '' @ Error err)))"
    by (simp only: newDatadogProvider_parse_error)
  moreover have "sublist (Error err)
      (Error (PlainError (''error parsing metric interval: '' @ Error err)))"
    by (simp only: Error.simps sublist_parse_error)
  ultimately show "\<exists>e. newDatadogProvider ParseDuration metricInterval provider creds =
      (None, Some e) \<and> sublist (Error err) (Error e)"
    by blast
next
  assume c: "creds ''datadog_api_key'' = Some a \<and> creds ''datadog_application_key'' = Some b"
    and p: "ParseDuration metricInterval = Inr md"
  from c p show "\<exists>dd. newDatadogProvider ParseDuration metricInterval provider creds =
      (Some dd, None) \<and> fromDelta dd = int64_of_f64 (f64_mul 10 (Seconds md)) \<and>
      (sint md = n * 1000000000 \<longrightarrow> sint (fromDelta dd) = 10 * n)"
    by (simp add: newDatadogProvider_ok fromDelta_whole)
qed

theorem newDatadogProvider_interval_witness:
  "(\<exists>e. newDatadogProvider
          (\<lambda>s. if s = ''1m'' then Inr (60 * Second) else Inl (PlainError ''time: invalid duration''))
          ''abc'' \<lparr>Type = ''datadog'', Address = []\<rparr>
          [''datadog_api_key'' \<mapsto> ''k'', ''datadog_application_key'' \<mapsto> ''a'']
        = (None, Some e) \<and> sublist ''time: invalid duration'' (Error e))
   \<and> (\<exists>dd. newDatadogProvider
          (\<lambda>s. if s = ''1m'' then Inr (60 * Second) else Inl (PlainError ''time: invalid duration''))
          ''1m'' \<lparr>Type = ''datadog'', Address = []\<rparr>
          [''datadog_api_key'' \<mapsto> ''k'', ''datadog_application_key'' \<mapsto> ''a'']
        = (Some dd, None) \<and> sint (fromDelta dd) = 600)"
proof -
  let ?P = "\<lambda>s. if s = ''1m'' then Inr (60 * Second)
                 else Inl (PlainError ''time: invalid duration'')"
  let ?p = "\<lparr>Type = ''datadog'', Address = []\<rparr>"
  let ?c = "[''datadog_api_key'' \<mapsto> ''k'', ''datadog_application_key'' \<mapsto> ''a'']"
  have c: "?c ''datadog_api_key'' = Some ''k'' \<and> ?c ''datadog_application_key'' = Some ''a''"
    by simp
  have p1: "?P ''abc'' = Inl (PlainError ''time: invalid duration'')" by simp
  have p2: "?P ''1m'' = Inr (60 * Second)" by simp
  have s: "sint (60 * Second) = 60 * 1000000000" by (simp add: Second_def)
  from newDatadogProvider_interval
         [of ?c "''k''" "''a''" ?P "''abc''" "PlainError ''time: invalid duration''" ?p] c p1
  have a: "\<exists>e. newDatadogProvider ?P ''abc'' ?p ?c = (None, Some e) \<and>
             sublist ''time: invalid duration'' (Error e)"
    by simp
  from newDatadogProvider_interval
         [of ?c "''k''" "''a''" ?P "''1m''" _ ?p "60 * Second" 60] c p2 s
  have b: "\<exists>dd. newDatadogProvider ?P ''1m'' ?p ?c = (Some dd, None) \<and>
             sint (fromDelta dd) = 600"
    by auto
  from a b show ?thesis by blast
qed

section \<open>Datadog queries\<close>

text \<open>
  What \<open>RunQuery\<close> does once the request was built and answered with status 200 and a
  body \<open>b\<close> that could be read.
\<close>

lemma datadog_RunQuery_200:
  assumes "NewRequest env ''GET'' (metricsQueryEndpoint p) = None"
    and "\<And>req. Do env req = Inr \<lparr>StatusCode = 200, Body = Inr b\<rparr>"
  shows "datadog_RunQuery env Unmarshal p query =
     (case Unmarshal b of
        Inl err \<Rightarrow>
          Returns (0, Some (Errorf
            (''error unmarshaling result: '' @ Error err @ '', '' @ [CHR 0x27] @ b @ [CHR 0x27])))
      | Inr res \<Rightarrow>
          if length (Series res) < 1
          then Returns (0, Some (Errorf (''no values found in response: '' @ b)))
          else
            bind_outcome (index (Series res) 0) (\<lambda>s.
            bind_outcome (index (Pointlist s) (int (length (Pointlist s)) - 1)) (\<lambda>vs.
              if length vs < 1
              then Returns (0, Some (Errorf (''no values found in response: '' @ b)))
              else bind_outcome (index vs 1) (\<lambda>v. Returns (v, None)))))"
  using assms by (simp add: datadog_RunQuery_def StatusOK_def Let_def)

text \<open>
  C3. Given a 200 response whose body is exactly
  \<open>{"series":[{"pointlist":[[1000,1.0],[2000,42.5]]}]}\<close>, which \<open>json.Unmarshal\<close> decodes
  to one series with the points \<open>[1000, 1.0]\<close> and \<open>[2000, 42.5]\<close>, \<open>RunQuery\<close> returns
  42.5 and no error: the value of the last point of the first series.
\<close>

theorem datadog_RunQuery_last_point:
  assumes "NewRequest env ''GET'' (metricsQueryEndpoint p) = None"
    and "\<And>req. Do env req =
           Inr \<lparr>StatusCode = 200,
                Body = Inr ''{\"series\":[{\"pointlist\":[[1000,1.0],[2000,42.5]]}]}''\<rparr>"
    and "Unmarshal ''{\"series\":[{\"pointlist\":[[1000,1.0],[2000,42.5]]}]}'' =
           Inr \<lparr>Series = [\<lparr>Pointlist = [[1000, 1.0], [2000, 42.5]]\<rparr>]\<rparr>"
  shows "datadog_RunQuery env Unmarshal p query = Returns (42.5, None)"
  using assms(3) by (simp add: datadog_RunQuery_200 [OF assms(1,2)] index_def)

theorem datadog_RunQuery_last_point_witness:
  "datadog_RunQuery
      \<lparr>NewRequest = \<lambda>_ _. None,
       Do = \<lambda>_. Inr \<lparr>StatusCode = 200,
                      Body = Inr ''{\"series\":[{\"pointlist\":[[1000,1.0],[2000,42.5]]}]}''\<rparr>,
       Now = 1700000000\<rparr>
      (\<lambda>b. if b = ''{\"series\":[{\"pointlist\":[[1000,1.0],[2000,42.5]]}]}''
           then Inr \<lparr>Series = [\<lparr>Pointlist = [[1000, 1.0], [2000, 42.5]]\<rparr>]\<rparr>
           else Inl (PlainError ''invalid character''))
      \<lparr>metricsQueryEndpoint = ''https://api.datadoghq.com/api/v1/query'',
       apiKeyValidationEndpoint = ''https://api.datadoghq.com/api/v1/validate'',
       timeout = 5 * Second, apiKey = ''k'', applicationKey = ''a'', fromDelta = 600\<rparr>
      ''avg:system.cpu.user{*}''
     = Returns (42.5, None)"
  by (rule datadog_RunQuery_last_point) simp_all

text \<open>
  C1. \<open>RunQuery\<close> is claimed never to panic on a 200 response. It does: when the last
  point of the first series has exactly one element the guard \<open>len(vs) < 1\<close> lets it
  through and \<open>vs[1]\<close> is out of range, and when the first series has no point at all
  \<open>s.Pointlist[len(s.Pointlist)-1]\<close> indexes at \<open>-1\<close>.
\<close>

theorem datadog_RunQuery_panics:
  "datadog_RunQuery
      \<lparr>NewRequest = \<lambda>_ _. None,
       Do = \<lambda>_. Inr \<lparr>StatusCode = 200, Body = Inr ''{\"series\":[{\"pointlist\":[[1000]]}]}''\<rparr>,
       Now = now\<rparr>
      (\<lambda>_. Inr \<lparr>Series = [\<lparr>Pointlist = [[1000]]\<rparr>]\<rparr>) p query
     = Panics ''runtime error: index out of range''
   \<and> datadog_RunQuery
      \<lparr>NewRequest = \<lambda>_ _. None,
       Do = \<lambda>_. Inr \<lparr>StatusCode = 200, Body = Inr ''{\"series\":[{\"pointlist\":[]}]}''\<rparr>,
       Now = now\<rparr>
      (\<lambda>_. Inr \<lparr>Series = [\<lparr>Pointlist = []\<rparr>]\<rparr>) p query
     = Panics ''runtime error: index out of range''"
  by (simp add: datadog_RunQuery_def StatusOK_def Let_def index_def)

text \<open>
  Every path of \<open>RunQuery\<close> once the answer is in: the error returns for a status other
  than 200, a body that does not decode, an empty series list and an empty last point; the
  two panics; and the value returned when the last point has two elements or more.
\<close>

lemma datadog_RunQuery_error_returns:
  assumes "NewRequest env ''GET'' (metricsQueryEndpoint p) = None"
  shows "(\<And>req. Do env req = Inr \<lparr>StatusCode = code, Body = Inr b\<rparr>) \<Longrightarrow> code \<noteq> 200 \<Longrightarrow>
           datadog_RunQuery env Unmarshal p query =
             Returns (0, Some (Errorf (''error response: '' @ b)))"
    and "(\<And>req. Do env req = Inr \<lparr>StatusCode = 200, Body = Inr b\<rparr>) \<Longrightarrow>
           Unmarshal b = Inl err \<Longrightarrow>
           datadog_RunQuery env Unmarshal p query =
             Returns (0, Some (Errorf (''error unmarshaling result: '' @ Error err @ '', '' @
               [CHR 0x27] @ b @ [CHR 0x27])))"
    and "(\<And>req. Do env req = Inr \<lparr>StatusCode = 200, Body = Inr b\<rparr>) \<Longrightarrow>
           Unmarshal b = Inr \<lparr>Series = []\<rparr> \<Longrightarrow>
           datadog_RunQuery env Unmarshal p query =
             Returns (0, Some (Errorf (''no values found in response: '' @ b)))"
    and "(\<And>req. Do env req = Inr \<lparr>StatusCode = 200, Body = Inr b\<rparr>) \<Longrightarrow>
           Unmarshal b = Inr \<lparr>Series = \<lparr>Pointlist = pts @ [[]]\<rparr> # ss\<rparr> \<Longrightarrow>
           datadog_RunQuery env Unmarshal p query =
             Returns (0, Some (Errorf (''no values found in response: '' @ b)))"
    and "(\<And>req. Do env req = Inr \<lparr>StatusCode = 200, Body = Inr b\<rparr>) \<Longrightarrow>
           Unmarshal b = Inr \<lparr>Series = \<lparr>Pointlist = pts @ [[t]]\<rparr> # ss\<rparr> \<Longrightarrow>
           datadog_RunQuery env Unmarshal p query = Panics ''runtime error: index out of range''"
    and "(\<And>req. Do env req = Inr \<lparr>StatusCode = 200, Body = Inr b\<rparr>) \<Longrightarrow>
           Unmarshal b = Inr \<lparr>Series = \<lparr>Pointlist = []\<rparr> # ss\<rparr> \<Longrightarrow>
           datadog_RunQuery env Unmarshal p query = Panics ''runtime error: index out of range''"
    and "(\<And>req. Do env req = Inr \<lparr>StatusCode = 200, Body = Inr b\<rparr>) \<Longrightarrow>
           Unmarshal b = Inr \<lparr>Series = \<lparr>Pointlist = pts @ [t # v # vs]\<rparr> # ss\<rparr> \<Longrightarrow>
           datadog_RunQuery env Unmarshal p query = Returns (v, None)"
  using assms
  by (simp_all add: datadog_RunQuery_def StatusOK_def Let_def index_def nth_append)

section \<open>CloudWatch construction\<close>

text \<open>
  C2. The region is claimed to be the address without the prefix \<open>monitoring.\<close> and the
  suffix \<open>.amazonaws.com\<close>. \<open>strings.TrimLeft\<close> and \<open>strings.TrimRight\<close> take sets of
  characters: for the endpoint of the region \<open>me-south-1\<close> the leading \<open>m\<close> of the region
  goes too, and the session is configured for \<open>e-south-1\<close>, where removing the prefix and
  the suffix gives \<open>me-south-1\<close>.
\<close>

theorem cloudWatchRegion_me_south_1:
  "cloudWatchRegion ''monitoring.me-south-1.amazonaws.com'' = ''e-south-1''
   \<and> TrimSuffix (TrimPrefix ''monitoring.me-south-1.amazonaws.com'' ''monitoring.'')
        ''.amazonaws.com'' = ''me-south-1''
   \<and> fst (newCloudWatchProvider (\<lambda>cfg. (cfg, None)) cloudwatch_New
         \<lparr>Type = ''cloudwatch'', Address = ''monitoring.me-south-1.amazonaws.com''\<rparr>)
       = Some \<lparr>client = cloudwatch_New
           \<lparr>Region = ''e-south-1'', MaxRetries = 3,
            Endpoint = ''monitoring.me-south-1.amazonaws.com''\<rparr>\<rparr>"
  by (simp add: newCloudWatchProvider_def cloudWatchRegion_def TrimLeft_def TrimRight_def
      TrimPrefix_def TrimSuffix_def cloudWatchMaxRetries_def Let_def suffix_def)

text \<open>
  C4. Construction is claimed to fail closed. \<open>newCloudWatchProvider\<close> returns a client in
  every case, and beside it the error of the session constructor, whatever that is: with a
  failing session constructor it returns both a client and the error.
\<close>

theorem newCloudWatchProvider_client_with_error:
  "fst (newCloudWatchProvider NewSession cloudwatch_New provider) \<noteq> None
   \<and> snd (newCloudWatchProvider NewSession cloudwatch_New provider) =
       snd (NewSession \<lparr>Region = cloudWatchRegion (Address provider),
                        MaxRetries = cloudWatchMaxRetries,
                        Endpoint = Address provider\<rparr>)
   \<and> newCloudWatchProvider (\<lambda>cfg. ((), Some (PlainError ''no session''))) (\<lambda>_. c) provider =
       (Some \<lparr>client = c\<rparr>, Some (PlainError ''no session''))"
  by (simp add: newCloudWatchProvider_def Let_def split: prod.splits)

section \<open>CloudWatch queries and health check\<close>

text \<open>
  C8. When the query does not decode, CloudWatch \<open>RunQuery\<close> returns the decode error and
  sends nothing to the backend. When it decodes and the backend answers without error,
  exactly one request is sent, carrying the decoded queries; the result is an error when
  the result list is empty or the first result has no values, and otherwise the first
  value of the first result.
\<close>

theorem cloudWatch_RunQuery_results:
  "(Unmarshal query = Inl err \<longrightarrow>
      cloudWatch_RunQuery Unmarshal String p query =
        (Returns (0, Some (Errorf (''error unmarshaling query: '' @ Error err))), []))
   \<and> (Unmarshal query = Inr cq \<and>
       client p \<lparr>EndTime = None, MaxDatapoints = Some 1, StartTime = None,
                 MetricDataQueries = cq\<rparr> = (Some res, None) \<longrightarrow>
      snd (cloudWatch_RunQuery Unmarshal String p query) =
        [\<lparr>EndTime = None, MaxDatapoints = Some 1, StartTime = None, MetricDataQueries = cq\<rparr>]
      \<and> (MetricDataResults res = [] \<longrightarrow>
           fst (cloudWatch_RunQuery Unmarshal String p query) =
             Returns (0, Some (Errorf (''no values found in response: '' @ String res))))
      \<and> (\<forall>r rs. MetricDataResults res = Some r # rs \<and> Values r = [] \<longrightarrow>
           fst (cloudWatch_RunQuery Unmarshal String p query) =
             Returns (0, Some (Errorf (''no values found in response: '' @ String res))))
      \<and> (\<forall>r rs v vs. MetricDataResults res = Some r # rs \<and> Values r = v # vs \<longrightarrow>
           fst (cloudWatch_RunQuery Unmarshal String p query) =
             Returns (Float64Value v, None)))"
  by (auto simp add: cloudWatch_RunQuery_def Let_def index_def split: prod.splits)

theorem cloudWatch_RunQuery_results_witness:
  "cloudWatch_RunQuery (\<lambda>q. if q = ''[]'' then Inr [] else Inl (PlainError ''invalid character''))
       (\<lambda>_. ''{}'') \<lparr>client = \<lambda>_::unit GetMetricDataInput. (None, None)\<rparr> ''not json''
     = (Returns (0, Some (Errorf ''error unmarshaling query: invalid character'')), [])
   \<and> cloudWatch_RunQuery (\<lambda>q. if q = ''[]'' then Inr [] else Inl (PlainError ''invalid character''))
       (\<lambda>_. ''{}'')
       \<lparr>client = \<lambda>_::unit GetMetricDataInput.
          (Some \<lparr>MetricDataResults = [Some \<lparr>Values = [Some 7, Some 9]\<rparr>]\<rparr>, None)\<rparr> ''[]''
     = (Returns (7, None),
        [\<lparr>EndTime = None, MaxDatapoints = Some 1, StartTime = None, MetricDataQueries = []\<rparr>])
   \<and> fst (cloudWatch_RunQuery
       (\<lambda>q. if q = ''[]'' then Inr [] else Inl (PlainError ''invalid character''))
       (\<lambda>_. ''{}'')
       \<lparr>client = \<lambda>_::unit GetMetricDataInput. (Some \<lparr>MetricDataResults = []\<rparr>, None)\<rparr> ''[]'')
     = Returns (0, Some (Errorf ''no values found in response: {}''))
   \<and> fst (cloudWatch_RunQuery
       (\<lambda>q. if q = ''[]'' then Inr [] else Inl (PlainError ''invalid character''))
       (\<lambda>_. ''{}'')
       \<lparr>client = \<lambda>_::unit GetMetricDataInput.
          (Some \<lparr>MetricDataResults = [Some \<lparr>Values = []\<rparr>]\<rparr>, None)\<rparr> ''[]'')
     = Returns (0, Some (Errorf ''no values found in response: {}''))"
proof -
  let ?U = "\<lambda>q. if q = ''[]'' then Inr ([] :: unit list)
                 else Inl (PlainError ''invalid character'')"
  let ?S = "\<lambda>_::GetMetricDataOutput. ''{}''"
  let ?r1 = "\<lparr>MetricDataResults = [Some \<lparr>Values = [Some 7, Some 9]\<rparr>]\<rparr>"
  let ?r2 = "\<lparr>MetricDataResults = []\<rparr>"
  let ?r3 = "\<lparr>MetricDataResults = [Some \<lparr>Values = []\<rparr>]\<rparr>"
  have a: "cloudWatch_RunQuery ?U ?S \<lparr>client = \<lambda>_. (None, None)\<rparr> ''not json''
     = (Returns (0, Some (Errorf ''error unmarshaling query: invalid character'')), [])"
    using cloudWatch_RunQuery_results
      [of ?U "''not json''" "PlainError ''invalid character''" ?S "\<lparr>client = \<lambda>_. (None, None)\<rparr>"]
    by simp
  have b: "cloudWatch_RunQuery ?U ?S \<lparr>client = \<lambda>_. (Some ?r1, None)\<rparr> ''[]''
     = (Returns (7, None),
        [\<lparr>EndTime = None, MaxDatapoints = Some 1, StartTime = None, MetricDataQueries = []\<rparr>])"
    using cloudWatch_RunQuery_results
      [of ?U "''[]''" _ ?S "\<lparr>client = \<lambda>_. (Some ?r1, None)\<rparr>" "[]" ?r1]
    by (simp add: prod_eq_iff Float64Value_def)
  have c: "fst (cloudWatch_RunQuery ?U ?S \<lparr>client = \<lambda>_. (Some ?r2, None)\<rparr> ''[]'')
     = Returns (0, Some (Errorf ''no values found in response: {}''))"
    using cloudWatch_RunQuery_results
      [of ?U "''[]''" _ ?S "\<lparr>client = \<lambda>_. (Some ?r2, None)\<rparr>" "[]" ?r2]
    by simp
  have d: "fst (cloudWatch_RunQuery ?U ?S \<lparr>client = \<lambda>_. (Some ?r3, None)\<rparr> ''[]'')
     = Returns (0, Some (Errorf ''no values found in response: {}''))"
    using cloudWatch_RunQuery_results
      [of ?U "''[]''" _ ?S "\<lparr>client = \<lambda>_. (Some ?r3, None)\<rparr>" "[]" ?r3]
    by simp
  from a b c d show ?thesis by simp
qed

text \<open>
  C9. CloudWatch \<open>IsOnline\<close> returns \<open>(true, nil)\<close> when the probe succeeds; an
  "unexpected error" failure when the probe's error is not a request failure;
  \<open>(true, nil)\<close> when it is a request failure with status 400 (bad request); and an
  "unexpected status code" failure for a request failure with any other status.
\<close>

theorem cloudWatch_IsOnline_policy:
  "(snd (client p \<lparr>EndTime = Some zeroTime, MaxDatapoints = None, StartTime = Some zeroTime,
                   MetricDataQueries = []\<rparr>) = None \<longrightarrow>
      fst (cloudWatch_IsOnline p) = (True, None))
   \<and> (snd (client p \<lparr>EndTime = Some zeroTime, MaxDatapoints = None, StartTime = Some zeroTime,
                   MetricDataQueries = []\<rparr>) = Some (PlainError m) \<longrightarrow>
      fst (cloudWatch_IsOnline p) = (False, Some (Errorf (''unexpected error: '' @ m))))
   \<and> (snd (client p \<lparr>EndTime = Some zeroTime, MaxDatapoints = None, StartTime = Some zeroTime,
                   MetricDataQueries = []\<rparr>) = Some (RequestFailure 400 m) \<longrightarrow>
      fst (cloudWatch_IsOnline p) = (True, None))
   \<and> (snd (client p \<lparr>EndTime = Some zeroTime, MaxDatapoints = None, StartTime = Some zeroTime,
                   MetricDataQueries = []\<rparr>) = Some (RequestFailure code m) \<and> code \<noteq> 400 \<longrightarrow>
      fst (cloudWatch_IsOnline p) = (False, Some (Errorf (''unexpected status code: '' @ m))))"
  by (simp add: cloudWatch_IsOnline_def StatusBadRequest_def Let_def split: prod.splits)

theorem cloudWatch_IsOnline_policy_witness:
  "fst (cloudWatch_IsOnline \<lparr>client = \<lambda>_::unit GetMetricDataInput. (None, None)\<rparr>) = (True, None)
   \<and> fst (cloudWatch_IsOnline
        \<lparr>client = \<lambda>_::unit GetMetricDataInput. (None, Some (PlainError ''timeout''))\<rparr>)
       = (False, Some (Errorf ''unexpected error: timeout''))
   \<and> fst (cloudWatch_IsOnline
        \<lparr>client = \<lambda>_::unit GetMetricDataInput. (None, Some (RequestFailure 400 ''bad''))\<rparr>)
       = (True, None)
   \<and> fst (cloudWatch_IsOnline
        \<lparr>client = \<lambda>_::unit GetMetricDataInput. (None, Some (RequestFailure 403 ''denied''))\<rparr>)
       = (False, Some (Errorf ''unexpected status code: denied''))"
  using
    cloudWatch_IsOnline_policy
      [of "\<lparr>client = \<lambda>_::unit GetMetricDataInput. (None, None)\<rparr>"]
    cloudWatch_IsOnline_policy
      [of "\<lparr>client = \<lambda>_::unit GetMetricDataInput. (None, Some (PlainError ''timeout''))\<rparr>"
          "''timeout''"]
    cloudWatch_IsOnline_policy
      [of "\<lparr>client = \<lambda>_::unit GetMetricDataInput. (None, Some (RequestFailure 400 ''bad''))\<rparr>"
          "''bad''"]
    cloudWatch_IsOnline_policy
      [of "\<lparr>client = \<lambda>_::unit GetMetricDataInput. (None, Some (RequestFailure 403 ''denied''))\<rparr>"
          "''denied''" 403]
  by simp

section \<open>Factory dispatch\<close>

text \<open>
  C5. \<open>Factory.Provider\<close> dispatches on the type string: \<open>prometheus\<close> gives the
  Prometheus constructor's result, \<open>datadog\<close> the Datadog constructor's, \<open>cloudwatch\<close> the
  CloudWatch constructor's, and every other string (the empty one too) the Prometheus
  constructor's; client and error are passed on as they are.
\<close>

theorem Provider_dispatch:
  "(Type provider = ''prometheus'' \<longrightarrow>
      Provider newPrometheusProvider ParseDuration NewSession cloudwatch_New
          metricInterval provider creds =
        (IfacePrometheus (fst (newPrometheusProvider provider creds)),
         snd (newPrometheusProvider provider creds)))
   \<and> (Type provider = ''datadog'' \<longrightarrow>
      Provider newPrometheusProvider ParseDuration NewSession cloudwatch_New
          metricInterval provider creds =
        (IfaceDatadog (fst (newDatadogProvider ParseDuration metricInterval provider creds)),
         snd (newDatadogProvider ParseDuration metricInterval provider creds)))
   \<and> (Type provider = ''cloudwatch'' \<longrightarrow>
      Provider newPrometheusProvider ParseDuration NewSession cloudwatch_New
          metricInterval provider creds =
        (IfaceCloudWatch (fst (newCloudWatchProvider NewSession cloudwatch_New provider)),
         snd (newCloudWatchProvider NewSession cloudwatch_New provider)))
   \<and> (Type provider \<notin> {''prometheus'', ''datadog'', ''cloudwatch''} \<longrightarrow>
      Provider newPrometheusProvider ParseDuration NewSession cloudwatch_New
          metricInterval provider creds =
        (IfacePrometheus (fst (newPrometheusProvider provider creds)),
         snd (newPrometheusProvider provider creds)))"
  by (simp add: Provider_def split: prod.splits)

theorem Provider_dispatch_witness:
  "kind_of (fst (Provider (\<lambda>_ _. (Some (), None)) (\<lambda>_. Inr Second) (\<lambda>cfg. (cfg, None))
       (\<lambda>_ _. (None, None)) ''1s'' \<lparr>Type = ''prometheus'', Address = []\<rparr> Map.empty
       :: (unit, unit) Interface \<times> error option)) = Prometheus
   \<and> kind_of (fst (Provider (\<lambda>_ _. (Some (), None)) (\<lambda>_. Inr Second) (\<lambda>cfg. (cfg, None))
       (\<lambda>_ _. (None, None)) ''1s'' \<lparr>Type = ''datadog'', Address = []\<rparr> Map.empty
       :: (unit, unit) Interface \<times> error option)) = Datadog
   \<and> kind_of (fst (Provider (\<lambda>_ _. (Some (), None)) (\<lambda>_. Inr Second) (\<lambda>cfg. (cfg, None))
       (\<lambda>_ _. (None, None)) ''1s'' \<lparr>Type = ''cloudwatch'', Address = []\<rparr> Map.empty
       :: (unit, unit) Interface \<times> error option)) = CloudWatch
   \<and> kind_of (fst (Provider (\<lambda>_ _. (Some (), None)) (\<lambda>_. Inr Second) (\<lambda>cfg. (cfg, None))
       (\<lambda>_ _. (None, None)) ''1s'' \<lparr>Type = [], Address = []\<rparr> Map.empty
       :: (unit, unit) Interface \<times> error option)) = Prometheus"
proof -
  let ?prom = "\<lambda>(_::MetricTemplateProvider) (_::credentials). (Some (), None :: error option)"
  let ?parse = "\<lambda>_::string. (Inr Second :: error + Duration)"
  let ?sess = "\<lambda>cfg::aws_Config. (cfg, None :: error option)"
  let ?new = "\<lambda>(_::aws_Config) (_::unit GetMetricDataInput).
                (None :: GetMetricDataOutput option, None :: error option)"
  note d = Provider_dispatch [of _ ?prom ?parse ?sess ?new "''1s''" Map.empty]
  have 1: "Type \<lparr>Type = ''prometheus'', Address = []\<rparr> = ''prometheus''" by simp
  have 2: "Type \<lparr>Type = ''datadog'', Address = []\<rparr> = ''datadog''" by simp
  have 3: "Type \<lparr>Type = ''cloudwatch'', Address = []\<rparr> = ''cloudwatch''" by simp
  have 4: "Type \<lparr>Type = [], Address = []\<rparr> \<notin> {''prometheus'', ''datadog'', ''cloudwatch''}"
    by simp
  from d [of "\<lparr>Type = ''prometheus'', Address = []\<rparr>"] 1
       d [of "\<lparr>Type = ''datadog'', Address = []\<rparr>"] 2
       d [of "\<lparr>Type = ''cloudwatch'', Address = []\<rparr>"] 3
       d [of "\<lparr>Type = [], Address = []\<rparr>"] 4
  show ?thesis by simp
qed

text \<open>
  C10. The two \<open>Factory.Provider\<close> of the sources are claimed to be equal on every input.
  They differ on the type \<open>cloudwatch\<close>, which the first does not know.
\<close>

theorem Provider_versions_differ:
  "(Provider_v1 (\<lambda>_ _. (Some (), None)) (newDatadogProvider (\<lambda>_. Inr Second)) ''1s''
       \<lparr>Type = ''cloudwatch'', Address = ''monitoring.us-east-1.amazonaws.com''\<rparr> Map.empty
     :: (unit, unit) Interface \<times> error option)
   \<noteq> Provider (\<lambda>_ _. (Some (), None)) (\<lambda>_. Inr Second) (\<lambda>cfg. (cfg, None))
       (\<lambda>_ _. (None, None)) ''1s''
       \<lparr>Type = ''cloudwatch'', Address = ''monitoring.us-east-1.amazonaws.com''\<rparr> Map.empty"
  by (simp add: Provider_v1_def Provider_def newCloudWatchProvider_def Let_def)

text \<open>
  C10, as amended. With the same Prometheus and Datadog constructors, the two
  \<open>Factory.Provider\<close> return the same client and the same error for every provider type
  other than \<open>cloudwatch\<close>; for \<open>cloudwatch\<close> the first returns the Prometheus
  constructor's result (its default), the second the CloudWatch constructor's.
\<close>

theorem Provider_versions_agree:
  "(Type provider \<noteq> ''cloudwatch'' \<longrightarrow>
      Provider_v1 newPrometheusProvider (newDatadogProvider ParseDuration)
          metricInterval provider creds =
      Provider newPrometheusProvider ParseDuration NewSession cloudwatch_New
          metricInterval provider creds)
   \<and> (Type provider = ''cloudwatch'' \<longrightarrow>
      Provider_v1 newPrometheusProvider (newDatadogProvider ParseDuration)
          metricInterval provider creds =
        (IfacePrometheus (fst (newPrometheusProvider provider creds)),
         snd (newPrometheusProvider provider creds))
      \<and> Provider newPrometheusProvider ParseDuration NewSession cloudwatch_New
          metricInterval provider creds =
        (IfaceCloudWatch (fst (newCloudWatchProvider NewSession cloudwatch_New provider)),
         snd (newCloudWatchProvider NewSession cloudwatch_New provider)))"
  by (simp add: Provider_v1_def Provider_def split: prod.splits)

theorem Provider_versions_agree_witness:
  "(Provider_v1 (\<lambda>_ _. (Some (), None)) (newDatadogProvider (\<lambda>_. Inr Second)) ''1s''
       \<lparr>Type = ''datadog'', Address = []\<rparr> Map.empty
     :: (unit, unit) Interface \<times> error option)
   = Provider (\<lambda>_ _. (Some (), None)) (\<lambda>_. Inr Second) (\<lambda>cfg. (cfg, None))
       (\<lambda>_ _. (None, None)) ''1s'' \<lparr>Type = ''datadog'', Address = []\<rparr> Map.empty
   \<and> kind_of (fst (Provider_v1 (\<lambda>_ _. (Some (), None)) (newDatadogProvider (\<lambda>_. Inr Second))
       ''1s'' \<lparr>Type = ''cloudwatch'', Address = []\<rparr> Map.empty
       :: (unit, unit) Interface \<times> error option)) = Prometheus
   \<and> kind_of (fst (Provider (\<lambda>_ _. (Some (), None)) (\<lambda>_. Inr Second) (\<lambda>cfg. (cfg, None))
       (\<lambda>_ _. (None, None)) ''1s'' \<lparr>Type = ''cloudwatch'', Address = []\<rparr> Map.empty
       :: (unit, unit) Interface \<times> error option)) = CloudWatch"
proof -
  let ?prom = "\<lambda>(_::MetricTemplateProvider) (_::credentials). (Some (), None :: error option)"
  let ?parse = "\<lambda>_::string. (Inr Second :: error + Duration)"
  let ?sess = "\<lambda>cfg::aws_Config. (cfg, None :: error option)"
  let ?new = "\<lambda>(_::aws_Config) (_::unit GetMetricDataInput).
                (None :: GetMetricDataOutput option, None :: error option)"
  note d = Provider_versions_agree [of _ ?prom ?parse "''1s''" Map.empty ?sess ?new]
  have 1: "Type \<lparr>Type = ''datadog'', Address = []\<rparr> \<noteq> ''cloudwatch''" by simp
  have 2: "Type \<lparr>Type = ''cloudwatch'', Address = []\<rparr> = ''cloudwatch''" by simp
  from d [of "\<lparr>Type = ''datadog'', Address = []\<rparr>"] 1
       d [of "\<lparr>Type = ''cloudwatch'', Address = []\<rparr>"] 2
  show ?thesis by (metis fst_conv kind_of.simps(1) kind_of.simps(3))
qed

end
